theory Spec2Isabelle
  imports Complex_Main "HOL-Library.Word" "HOL-Library.Sublist"
begin

section \<open>Strings and numbers of the JavaScript runtime\<close>

text \<open>
  A JavaScript string is a sequence of UTF-16 code units.  The operations of
  \<open>String.prototype\<close> that the module calls are written out below on lists of
  code units, each following the index-based description of the language
  standard rather than a library notion of prefix or infix; the library notions
  are related to them by lemmas further down.
\<close>

type_synonym jschar = "16 word"
type_synonym jsstring = "jschar list"

text \<open>The code unit of the digit \<open>'0'\<close>.\<close>

abbreviation ZERO :: jschar where
  "ZERO \<equiv> 0x30"

text \<open>Writes an ASCII literal as a JavaScript string (used for concrete tables).\<close>

definition js :: "string \<Rightarrow> jsstring" where
  "js s = map of_char s"

text \<open>\<open>s.padStart(n, c)\<close> for a one-unit filler \<open>c\<close>: nothing is added when
  \<open>s\<close> already has \<open>n\<close> units or more.\<close>

definition padStart :: "nat \<Rightarrow> jschar \<Rightarrow> jsstring \<Rightarrow> jsstring" where
  "padStart n c s = (if n \<le> length s then s else replicate (n - length s) c @ s)"

text \<open>\<open>s.replace(/^0+/, '')\<close>: the longest run of zeros at the start is removed.\<close>

definition stripLeadingZeros :: "jsstring \<Rightarrow> jsstring" where
  "stripLeadingZeros s = dropWhile (\<lambda>c. c = ZERO) s"

text \<open>\<open>s.startsWith(t)\<close>: the first \<open>length t\<close> units of \<open>s\<close> are \<open>t\<close>.\<close>

definition startsWith :: "jsstring \<Rightarrow> jsstring \<Rightarrow> bool" where
  "startsWith s t = (length t \<le> length s \<and> take (length t) s = t)"

text \<open>\<open>s.includes(t)\<close>: some position \<open>i\<close> with \<open>i + length t \<le> length s\<close>
  carries \<open>t\<close>.\<close>

definition includes_js :: "jsstring \<Rightarrow> jsstring \<Rightarrow> bool" where
  "includes_js s t =
     (length t \<le> length s \<and>
      list_ex (\<lambda>i. take (length t) (drop i s) = t) [0..<Suc (length s - length t)])"

text \<open>
  \<open>String.prototype.toLowerCase\<close> is a built-in of the runtime driven by the
  Unicode case tables; the functions below take it as the parameter
  \<open>toLowerCase\<close>.  Its restriction to ASCII text, used for concrete tables:
\<close>

definition toLowerCase_ascii :: "jsstring \<Rightarrow> jsstring" where
  "toLowerCase_ascii s = map (\<lambda>c. if 0x41 \<le> c \<and> c \<le> 0x5A then c + 0x20 else c) s"

text \<open>
  A JavaScript number, as far as comparison sees it: not-a-number, the two
  infinities, or a finite value (both zeros are the rational \<open>0\<close>).  Every
  comparison with \<open>NaN\<close> is false.
\<close>

datatype jsnum = NaN | NegInf | Fin rat | PosInf

fun js_le :: "jsnum \<Rightarrow> jsnum \<Rightarrow> bool" where
  "js_le NaN _ = False"
| "js_le _ NaN = False"
| "js_le NegInf _ = True"
| "js_le _ PosInf = True"
| "js_le (Fin a) (Fin b) = (a \<le> b)"
| "js_le _ _ = False"

text \<open>\<open>a >= b\<close> holds exactly when \<open>b <= a\<close> does.\<close>

definition js_ge :: "jsnum \<Rightarrow> jsnum \<Rightarrow> bool" where
  "js_ge a b = js_le b a"

definition js_lt :: "jsnum \<Rightarrow> jsnum \<Rightarrow> bool" where
  "js_lt a b = (js_le a b \<and> \<not> js_le b a)"

text \<open>
  Arithmetic is in IEEE 754 double precision.  A natural number below \<open>2^53\<close>
  is a double; a larger one is rounded to 53 significant bits, to the nearest
  double and to the even one of two equally near, and to infinity from
  \<open>2^1024 - 2^970\<close> on.  \<open>bitLength n\<close> is the number of binary digits of \<open>n\<close>.
\<close>

fun bitLength :: "nat \<Rightarrow> nat" where
  "bitLength n = (if n = 0 then 0 else Suc (bitLength (n div 2)))"

declare bitLength.simps [simp del]

definition roundToDouble :: "nat \<Rightarrow> jsnum" where
  "roundToDouble n =
     (if n < 9007199254740992 then Fin (of_nat n)
      else (let e = bitLength n - 53;
                q = n div 2 ^ e;
                r = n mod 2 ^ e;
                h = 2 ^ (e - 1);
                m = (if h < r \<or> (r = h \<and> odd q) then q + 1 else q) * 2 ^ e
            in if bitLength m \<le> 1024 then Fin (of_nat m) else PosInf))"

text \<open>\<open>a + b\<close> for two doubles that hold the non-negative integers \<open>a\<close> and \<open>b\<close>:
  the exact sum, rounded.\<close>

definition js_plus :: "nat \<Rightarrow> nat \<Rightarrow> jsnum" where
  "js_plus a b = roundToDouble (a + b)"


section \<open>The two tables\<close>

record Fylke =
  f_id :: jsstring
  f_name :: jsstring
  f_url :: jsstring

record Kommune =
  k_id :: jsstring
  k_name :: jsstring
  k_name_no :: jsstring
  k_adm_center :: jsstring
  k_population :: jsnum
  k_area :: jsnum
  k_language :: jsstring
  k_url :: jsstring

text \<open>
  The module reads \<open>fylkerData\<close> and \<open>kommunerData\<close> once from two bundled JSON
  files and never writes them.  The files are not part of the sources, so every
  function takes the table it reads as its first argument.  \<open>Array.prototype.find\<close>
  is \<^const>\<open>List.find\<close> (\<open>undefined\<close> is \<^const>\<open>None\<close>) and
  \<open>Array.prototype.filter\<close> is \<^const>\<open>filter\<close>.
\<close>


section \<open>The query functions\<close>

definition getAllFylker :: "Fylke list \<Rightarrow> Fylke list" where
  "getAllFylker fylkerData = fylkerData"

definition getAllKommuner :: "Kommune list \<Rightarrow> Kommune list" where
  "getAllKommuner kommunerData = kommunerData"

definition getFylkeById :: "Fylke list \<Rightarrow> jsstring \<Rightarrow> Fylke option" where
  "getFylkeById fylkerData ident = List.find (\<lambda>fylke. f_id fylke = ident) fylkerData"

definition getFylkeByName ::
  "(jsstring \<Rightarrow> jsstring) \<Rightarrow> Fylke list \<Rightarrow> jsstring \<Rightarrow> Fylke option" where
  "getFylkeByName toLowerCase fylkerData name =
     List.find (\<lambda>fylke. toLowerCase (f_name fylke) = toLowerCase name) fylkerData"

definition getKommuneById :: "Kommune list \<Rightarrow> jsstring \<Rightarrow> Kommune option" where
  "getKommuneById kommunerData ident =
     List.find (\<lambda>kommune. k_id kommune = ident) kommunerData"

definition getKommuneByName ::
  "(jsstring \<Rightarrow> jsstring) \<Rightarrow> Kommune list \<Rightarrow> jsstring \<Rightarrow> Kommune option" where
  "getKommuneByName toLowerCase kommunerData name =
     List.find (\<lambda>kommune.
        toLowerCase (k_name kommune) = toLowerCase name \<or>
        toLowerCase (k_name_no kommune) = toLowerCase name) kommunerData"

text \<open>
  The \<open>while\<close> loop of \<open>getKommuneByShortId\<close>: two indices walk over
  \<open>searchId\<close> and \<open>kommuneId\<close>; the result is the final \<open>searchIndex\<close>.
  Both reads are in range under the loop guard.
\<close>

function subsequenceLoop :: "jsstring \<Rightarrow> jsstring \<Rightarrow> nat \<Rightarrow> nat \<Rightarrow> nat" where
  "subsequenceLoop searchId kommuneId searchIndex kommuneIndex =
     (if searchIndex < length searchId \<and> kommuneIndex < length kommuneId
      then subsequenceLoop searchId kommuneId
             (if searchId ! searchIndex = kommuneId ! kommuneIndex
              then searchIndex + 1 else searchIndex)
             (kommuneIndex + 1)
      else searchIndex)"
  by pat_completeness auto
termination
  by (relation "measure (\<lambda>(searchId, kommuneId, searchIndex, kommuneIndex).
        length kommuneId - kommuneIndex)") auto

declare subsequenceLoop.simps [simp del]

definition subsequenceMatch :: "jsstring \<Rightarrow> jsstring \<Rightarrow> bool" where
  "subsequenceMatch searchId kommuneId =
     (subsequenceLoop searchId kommuneId 0 0 = length searchId)"

text \<open>
  The three \<open>find\<close> calls of \<open>getKommuneByShortId\<close>, named after the
  constants and comments of the source.
\<close>

definition exactMatch :: "Kommune list \<Rightarrow> jsstring \<Rightarrow> Kommune option" where
  "exactMatch kommunerData paddedId =
     List.find (\<lambda>kommune. k_id kommune = paddedId) kommunerData"

definition noZerosMatch :: "Kommune list \<Rightarrow> jsstring \<Rightarrow> Kommune option" where
  "noZerosMatch kommunerData searchId =
     List.find (\<lambda>kommune. stripLeadingZeros (k_id kommune) = searchId) kommunerData"

definition subsequenceFallback :: "Kommune list \<Rightarrow> jsstring \<Rightarrow> Kommune option" where
  "subsequenceFallback kommunerData searchId =
     List.find (\<lambda>kommune. subsequenceMatch searchId (k_id kommune)) kommunerData"

text \<open>
  \<open>getKommuneByShortId(shortId)\<close>.  The argument is the string that
  \<open>String(shortId)\<close> yields (the argument itself when it is a string, the
  decimal digits when it is a non-negative integer).  A record is an object
  and therefore truthy, so \<open>if (exactMatch) return exactMatch\<close> returns
  exactly when \<open>find\<close> found one.
\<close>

definition getKommuneByShortId :: "Kommune list \<Rightarrow> jsstring \<Rightarrow> Kommune option" where
  "getKommuneByShortId kommunerData shortId =
     (let searchId = stripLeadingZeros shortId;
          paddedId = padStart 4 ZERO searchId
      in case exactMatch kommunerData paddedId of
           Some m \<Rightarrow> Some m
         | None \<Rightarrow>
             (case noZerosMatch kommunerData searchId of
                Some m \<Rightarrow> Some m
              | None \<Rightarrow> subsequenceFallback kommunerData searchId))"

definition getKommunerByLanguage ::
  "(jsstring \<Rightarrow> jsstring) \<Rightarrow> Kommune list \<Rightarrow> jsstring \<Rightarrow> Kommune list" where
  "getKommunerByLanguage toLowerCase kommunerData language =
     filter (\<lambda>kommune. toLowerCase (k_language kommune) = toLowerCase language)
       kommunerData"

definition getKommunerInFylke :: "Kommune list \<Rightarrow> jsstring \<Rightarrow> Kommune list" where
  "getKommunerInFylke kommunerData fylkeId =
     filter (\<lambda>kommune. startsWith (k_id kommune) fylkeId) kommunerData"

definition getKommunerByPopulation :: "Kommune list \<Rightarrow> jsnum \<Rightarrow> jsnum \<Rightarrow> Kommune list" where
  "getKommunerByPopulation kommunerData min' max' =
     filter (\<lambda>kommune. js_ge (k_population kommune) min' \<and> js_le (k_population kommune) max')
       kommunerData"

definition getKommunerByArea :: "Kommune list \<Rightarrow> jsnum \<Rightarrow> jsnum \<Rightarrow> Kommune list" where
  "getKommunerByArea kommunerData min' max' =
     filter (\<lambda>kommune. js_ge (k_area kommune) min' \<and> js_le (k_area kommune) max')
       kommunerData"

definition searchKommunerByName ::
  "(jsstring \<Rightarrow> jsstring) \<Rightarrow> Kommune list \<Rightarrow> jsstring \<Rightarrow> Kommune list" where
  "searchKommunerByName toLowerCase kommunerData nameFragment =
     (let searchTerm = toLowerCase nameFragment
      in filter (\<lambda>kommune.
           includes_js (toLowerCase (k_name kommune)) searchTerm \<or>
           includes_js (toLowerCase (k_name_no kommune)) searchTerm) kommunerData)"

definition searchFylkerByName ::
  "(jsstring \<Rightarrow> jsstring) \<Rightarrow> Fylke list \<Rightarrow> jsstring \<Rightarrow> Fylke list" where
  "searchFylkerByName toLowerCase fylkerData nameFragment =
     (let searchTerm = toLowerCase nameFragment
      in filter (\<lambda>fylke. includes_js (toLowerCase (f_name fylke)) searchTerm) fylkerData)"


section \<open>The short-identifier lookup as the specification words it\<close>

text \<open>
  The specification describes the fuzzy lookup as three tiers on the input:
  (a) the input left-padded to four digits is matched exactly; (b) otherwise
  leading zeros are stripped from the input and from each identifier and the
  results are matched; (c) otherwise the first record is taken whose identifier
  contains the digits of the input, in order, as a subsequence.  This second
  definition follows those words, for comparison with the function above.
\<close>

definition getKommuneByShortId_claimed :: "Kommune list \<Rightarrow> jsstring \<Rightarrow> Kommune option" where
  "getKommuneByShortId_claimed kommunerData shortId =
     (case exactMatch kommunerData (padStart 4 ZERO shortId) of
        Some m \<Rightarrow> Some m
      | None \<Rightarrow>
          (case noZerosMatch kommunerData (stripLeadingZeros shortId) of
             Some m \<Rightarrow> Some m
           | None \<Rightarrow> List.find (\<lambda>kommune. subseq shortId (k_id kommune)) kommunerData))"


section \<open>Sample records\<close>

text \<open>
  A few records in the shape of the bundled tables, for evaluating the
  functions on concrete input.  The identifiers are those of Oslo, Time, Halden
  and Bergen; the letters outside ASCII are written by their code units.
\<close>

definition fylke_oslo :: Fylke where
  "fylke_oslo = \<lparr>f_id = js ''03'', f_name = js ''Oslo'', f_url = js ''www.oslo.kommune.no''\<rparr>"

definition fylke_rogaland :: Fylke where
  "fylke_rogaland =
     \<lparr>f_id = js ''11'', f_name = js ''Rogaland'', f_url = js ''www.rogfk.no''\<rparr>"

definition kommune_oslo :: Kommune where
  "kommune_oslo =
     \<lparr>k_id = js ''0301'', k_name = js ''Oslo'', k_name_no = js ''Oslo'',
      k_adm_center = js ''Oslo'', k_population = Fin 717710, k_area = Fin (45416 / 100),
      k_language = js ''N'' @ [0xF8] @ js ''ytral'', k_url = js ''www.oslo.kommune.no''\<rparr>"

definition kommune_time :: Kommune where
  "kommune_time =
     \<lparr>k_id = js ''1121'', k_name = js ''Time'', k_name_no = js ''Time'',
      k_adm_center = js ''Bryne'', k_population = Fin 20000, k_area = Fin (18299 / 100),
      k_language = js ''Nynorsk'', k_url = js ''www.time.kommune.no''\<rparr>"

definition kommune_halden :: Kommune where
  "kommune_halden =
     \<lparr>k_id = js ''3101'', k_name = js ''Halden'', k_name_no = js ''Halden'',
      k_adm_center = js ''Halden'', k_population = Fin 31000, k_area = Fin (64220 / 100),
      k_language = js ''Bokm'' @ [0xE5] @ js ''l'', k_url = js ''www.halden.kommune.no''\<rparr>"

definition kommune_bergen :: Kommune where
  "kommune_bergen =
     \<lparr>k_id = js ''4601'', k_name = js ''Bergen'', k_name_no = js ''Bergen'',
      k_adm_center = js ''Bergen'', k_population = Fin 291940, k_area = Fin (46456 / 100),
      k_language = js ''N'' @ [0xF8] @ js ''ytral'', k_url = js ''www.bergen.kommune.no''\<rparr>"


section \<open>The runtime operations and the library notions\<close>

lemma startsWith_iff_prefix: "startsWith s t \<longleftrightarrow> prefix t s"
proof
  assume "startsWith s t"
  then have "take (length t) s = t" by (simp add: startsWith_def)
  then have "s = t @ drop (length t) s" by (metis append_take_drop_id)
  then show "prefix t s" by (metis prefixI)
next
  assume "prefix t s"
  then obtain r where "s = t @ r" by (auto simp: prefix_def)
  then show "startsWith s t" by (simp add: startsWith_def)
qed

lemma includes_js_iff_sublist: "includes_js s t \<longleftrightarrow> sublist t s"
proof
  assume "includes_js s t"
  then obtain i where i: "take (length t) (drop i s) = t"
    unfolding includes_js_def list_ex_iff by blast
  have "s = take i s @ take (length t) (drop i s) @ drop (length t) (drop i s)"
    by (simp only: append_take_drop_id)
  with i have "s = take i s @ t @ drop (length t) (drop i s)" by simp
  then show "sublist t s" unfolding sublist_def by blast
next
  assume "sublist t s"
  then obtain ps ss where s: "s = ps @ t @ ss" by (auto simp: sublist_def)
  have a: "length ps \<in> set [0..<Suc (length s - length t)]" using s by simp
  have b: "take (length t) (drop (length ps) s) = t" using s by simp
  have c: "length t \<le> length s" using s by simp
  from a b have "\<exists>i\<in>set [0..<Suc (length s - length t)]. take (length t) (drop i s) = t"
    by blast
  with c show "includes_js s t"
    unfolding includes_js_def list_ex_iff by blast
qed

lemma subsequenceLoop_subseq:
  "searchIndex \<le> length searchId \<Longrightarrow> kommuneIndex \<le> length kommuneId \<Longrightarrow>
   subsequenceLoop searchId kommuneId searchIndex kommuneIndex = length searchId
     \<longleftrightarrow> subseq (drop searchIndex searchId) (drop kommuneIndex kommuneId)"
proof (induction searchId kommuneId searchIndex kommuneIndex rule: subsequenceLoop.induct)
  case (1 s k si ki)
  show ?case
  proof (cases "si < length s \<and> ki < length k")
    case True
    then have ds: "drop si s = s ! si # drop (Suc si) s"
      and dk: "drop ki k = k ! ki # drop (Suc ki) k"
      by (simp_all add: Cons_nth_drop_Suc)
    show ?thesis
    proof (cases "s ! si = k ! ki")
      case eq: True
      have "subsequenceLoop s k si ki = subsequenceLoop s k (si + 1) (ki + 1)"
        using True eq by (simp add: subsequenceLoop.simps [of s k si ki])
      moreover have "subsequenceLoop s k (si + 1) (ki + 1) = length s
          \<longleftrightarrow> subseq (drop (si + 1) s) (drop (ki + 1) k)"
        using "1.IH" [OF True] True eq by simp
      ultimately show ?thesis using ds dk eq by simp
    next
      case neq: False
      have "subsequenceLoop s k si ki = subsequenceLoop s k si (ki + 1)"
        using True neq by (simp add: subsequenceLoop.simps [of s k si ki])
      moreover have "subsequenceLoop s k si (ki + 1) = length s
          \<longleftrightarrow> subseq (drop si s) (drop (ki + 1) k)"
        using "1.IH" [OF True] True neq "1.prems" by simp
      ultimately show ?thesis using ds dk neq by simp
    qed
  next
    case False
    have r: "subsequenceLoop s k si ki = si"
      by (simp only: subsequenceLoop.simps [of s k si ki] if_not_P [OF False])
    show ?thesis
    proof (cases "si < length s")
      case True
      with False have "drop ki k = []" by simp
      moreover from True have "drop si s \<noteq> []" by simp
      ultimately show ?thesis using r True by simp
    next
      case False
      with "1.prems" have "si = length s" by simp
      then show ?thesis using r by simp
    qed
  qed
qed

lemma subsequenceMatch_iff_subseq: "subsequenceMatch searchId kommuneId \<longleftrightarrow> subseq searchId kommuneId"
  using subsequenceLoop_subseq [of 0 searchId 0 kommuneId] by (simp add: subsequenceMatch_def)

lemma takeWhile_zero_replicate:
  "takeWhile (\<lambda>c. c = z) s = replicate (length (takeWhile (\<lambda>c. c = z) s)) z"
  by (induction s) auto

lemma padStart_stripLeadingZeros:
  assumes "length s \<le> 4"
  shows "padStart 4 ZERO (stripLeadingZeros s) = padStart 4 ZERO s"
proof -
  let ?t = "takeWhile (\<lambda>c. c = ZERO) s" and ?d = "dropWhile (\<lambda>c. c = ZERO) s"
  have s: "s = ?t @ ?d" by simp
  have len: "length s = length ?t + length ?d"
    by (metis length_append s)
  have t: "?t = replicate (length ?t) ZERO" by (rule takeWhile_zero_replicate)
  have "replicate (4 - length ?d) ZERO @ ?d = replicate (4 - length s) ZERO @ s"
  proof -
    have "4 - length ?d = (4 - length s) + length ?t" using len assms by simp
    then have "replicate (4 - length ?d) ZERO = replicate (4 - length s) ZERO @ replicate (length ?t) ZERO"
      by (simp add: replicate_add)
    then have "replicate (4 - length ?d) ZERO @ ?d = replicate (4 - length s) ZERO @ (replicate (length ?t) ZERO @ ?d)"
      by simp
    also have "replicate (length ?t) ZERO @ ?d = ?t @ ?d" using t by simp
    also have "?t @ ?d = s" by simp
    finally show ?thesis .
  qed
  moreover have "4 \<le> length ?d \<Longrightarrow> ?d = s"
  proof -
    assume "4 \<le> length ?d"
    with len assms have "length ?t = 0" by arith
    then have "?t = []" by simp
    with s show "?d = s" by (metis append_Nil)
  qed
  ultimately show ?thesis
    using assms len by (auto simp: padStart_def stripLeadingZeros_def)
qed

section \<open>Facts about \<open>find\<close> and the comparison of numbers\<close>

lemma find_first_split:
  "(\<forall>y\<in>set pre. \<not> P y) \<Longrightarrow> P x \<Longrightarrow> List.find P (pre @ x # post) = Some x"
  by (induction pre) auto

lemma find_Some_split:
  "List.find P xs = Some x \<Longrightarrow>
   \<exists>pre post. xs = pre @ x # post \<and> P x \<and> (\<forall>y\<in>set pre. \<not> P y)"
proof (induction xs)
  case Nil
  then show ?case by simp
next
  case (Cons a xs)
  show ?case
  proof (cases "P a")
    case True
    with Cons.prems have "x = a" by simp
    with True have "a # xs = [] @ x # xs \<and> P x \<and> (\<forall>y\<in>set []. \<not> P y)" by simp
    then show ?thesis by blast
  next
    case False
    with Cons.prems have "List.find P xs = Some x" by simp
    from Cons.IH [OF this] obtain pre post
      where "xs = pre @ x # post" "P x" "\<forall>y\<in>set pre. \<not> P y" by blast
    with False have "a # xs = (a # pre) @ x # post \<and> P x \<and> (\<forall>y\<in>set (a # pre). \<not> P y)"
      by simp
    then show ?thesis by blast
  qed
qed

lemma find_key_distinct:
  "distinct (map f xs) \<Longrightarrow> x \<in> set xs \<Longrightarrow> List.find (\<lambda>y. f y = f x) xs = Some x"
proof (induction xs)
  case Nil
  then show ?case by simp
next
  case (Cons a xs)
  show ?case
  proof (cases "f a = f x")
    case True
    from Cons.prems have "f a \<notin> f ` set xs" by simp
    with True have "x \<notin> set xs" by force
    with Cons.prems have "x = a" by simp
    with True show ?thesis by simp
  next
    case False
    with Cons.prems have "x \<in> set xs" by auto
    with Cons False show ?thesis by simp
  qed
qed

lemma js_le_PosInf: "js_le a PosInf \<longleftrightarrow> a \<noteq> NaN"
  by (cases a) simp_all

lemma js_le_trans: "js_le a b \<Longrightarrow> js_le b c \<Longrightarrow> js_le a c"
  by (cases a; cases b; cases c) simp_all

lemma js_le_not_NaN: "js_le a b \<Longrightarrow> a \<noteq> NaN \<and> b \<noteq> NaN"
  by (cases a; cases b) simp_all

lemma js_le_Fin_Suc: "js_le p (Fin M) \<Longrightarrow> \<not> js_le (Fin (M + 1)) p"
  by (cases p) simp_all

lemma roundToDouble_2_53: "roundToDouble 9007199254740992 = Fin 9007199254740992"
  by (simp add: roundToDouble_def bitLength.simps Let_def)

lemma js_plus_2_53_1: "js_plus 9007199254740992 1 = Fin 9007199254740992"
  by (simp add: js_plus_def roundToDouble_def bitLength.simps Let_def)

lemma js_plus_one_exact:
  assumes "n < 9007199254740992"
  shows "js_plus n 1 = Fin (of_nat n + 1)"
proof (cases "n + 1 < 9007199254740992")
  case True
  then have "roundToDouble (n + 1) = Fin (of_nat (n + 1))"
    by (simp only: roundToDouble_def if_True)
  then show ?thesis by (simp add: js_plus_def)
next
  case False
  with assms have eq: "n + 1 = 9007199254740992" by linarith
  have "js_plus n 1 = roundToDouble 9007199254740992"
    by (simp only: js_plus_def eq)
  also have "\<dots> = Fin 9007199254740992" by (rule roundToDouble_2_53)
  also have "(9007199254740992::rat) = of_nat (n + 1)"
    by (simp only: eq of_nat_numeral)
  finally show ?thesis by simp
qed

section \<open>Facts about the short-identifier lookup\<close>

lemma subseq_padStart: "subseq t (padStart n c t)"
  by (simp add: padStart_def suffix_imp_subseq suffix_def)

lemma subseq_stripLeadingZeros: "subseq (stripLeadingZeros s) s"
  by (simp add: stripLeadingZeros_def suffix_imp_subseq suffix_dropWhile)

lemma stripLeadingZeros_idem: "stripLeadingZeros (stripLeadingZeros s) = stripLeadingZeros s"
  by (simp add: stripLeadingZeros_def)

lemma stripLeadingZeros_zeros: "set s \<subseteq> {ZERO} \<Longrightarrow> stripLeadingZeros s = []"
  by (auto simp: stripLeadingZeros_def)

lemma subsequenceFallback_find:
  "subsequenceFallback kommunerData searchId =
     List.find (\<lambda>kommune. subseq searchId (k_id kommune)) kommunerData"
  by (simp add: subsequenceFallback_def subsequenceMatch_iff_subseq)

lemma getKommuneByShortId_miss:
  assumes "\<forall>k\<in>set kommunerData. \<not> subseq (stripLeadingZeros shortId) (k_id k)"
  shows "getKommuneByShortId kommunerData shortId = None"
proof -
  let ?t = "stripLeadingZeros shortId"
  have a: "exactMatch kommunerData (padStart 4 ZERO ?t) = None"
    unfolding exactMatch_def find_None_iff using assms subseq_padStart by metis
  have b: "noZerosMatch kommunerData ?t = None"
    unfolding noZerosMatch_def find_None_iff using assms subseq_stripLeadingZeros by metis
  have c: "subsequenceFallback kommunerData ?t = None"
    unfolding subsequenceFallback_find find_None_iff using assms by blast
  from a b c show ?thesis by (simp add: getKommuneByShortId_def)
qed

lemma find_always: "List.find (\<lambda>x. True) xs = (case xs of [] \<Rightarrow> None | x # _ \<Rightarrow> Some x)"
  by (cases xs) simp_all

lemma short_id_strings:
  "stripLeadingZeros (js ''301'') = js ''301''"
  "padStart 4 ZERO (js ''301'') = js ''0301''"
  "stripLeadingZeros (js ''31'') = js ''31''"
  "padStart 4 ZERO (js ''31'') = js ''0031''"
  "stripLeadingZeros (js ''0031'') = js ''31''"
  "stripLeadingZeros (js ''0301'') = js ''301''"
  "js ''301'' \<noteq> js ''31''"
  "subseq (js ''31'') (js ''0301'')"
  by code_simp+

section \<open>Exact lookup by identifier\<close>

text \<open>
  Claim C3.  Looking a record up by its own identifier gives the record back:
  when the county identifiers of the table are pairwise different, every
  county \<open>c\<close> of the table satisfies \<open>getFylkeById(c.f_id) = c\<close>, and likewise
  \<open>getKommuneById(m.k_id) = m\<close> for every municipality \<open>m\<close> of a table with
  pairwise different municipality identifiers.
\<close>

theorem exact_id_lookup_roundtrip:
  "(distinct (map f_id fylkerData) \<and> c \<in> set fylkerData
      \<longrightarrow> getFylkeById fylkerData (f_id c) = Some c) \<and>
   (distinct (map k_id kommunerData) \<and> m \<in> set kommunerData
      \<longrightarrow> getKommuneById kommunerData (k_id m) = Some m)"
  by (simp add: getFylkeById_def getKommuneById_def find_key_distinct)

theorem exact_id_lookup_roundtrip_witness:
  "distinct (map f_id [fylke_oslo, fylke_rogaland]) \<and>
   fylke_rogaland \<in> set [fylke_oslo, fylke_rogaland] \<and>
   getFylkeById [fylke_oslo, fylke_rogaland] (f_id fylke_rogaland) = Some fylke_rogaland \<and>
   distinct (map k_id [kommune_oslo, kommune_time, kommune_bergen]) \<and>
   kommune_time \<in> set [kommune_oslo, kommune_time, kommune_bergen] \<and>
   getKommuneById [kommune_oslo, kommune_time, kommune_bergen] (k_id kommune_time)
     = Some kommune_time"
proof -
  have f: "distinct (map f_id [fylke_oslo, fylke_rogaland]) \<and>
      fylke_rogaland \<in> set [fylke_oslo, fylke_rogaland]"
    by code_simp
  have k: "distinct (map k_id [kommune_oslo, kommune_time, kommune_bergen]) \<and>
      kommune_time \<in> set [kommune_oslo, kommune_time, kommune_bergen]"
    by code_simp
  from f k
    exact_id_lookup_roundtrip [of "[fylke_oslo, fylke_rogaland]" fylke_rogaland
      "[kommune_oslo, kommune_time, kommune_bergen]" kommune_time]
  show ?thesis by blast
qed

section \<open>Lookup by name\<close>

text \<open>
  Claim C5.  Lookup by name does not distinguish case.  Two inputs with the
  same lower-case form (case variants of each other, such as \<open>oslo\<close> and
  \<open>Oslo\<close>) give the same result of \<open>getFylkeByName\<close>.  \<open>getKommuneByName(s)\<close>
  returns the first record of the table whose \<open>k_name\<close> or \<open>k_name_no\<close> has the
  lower-case form of \<open>s\<close>, and \<open>undefined\<close> exactly when no record has.
\<close>

theorem name_lookup_case_insensitive:
  "(toLowerCase s = toLowerCase t \<longrightarrow>
      getFylkeByName toLowerCase fylkerData s = getFylkeByName toLowerCase fylkerData t) \<and>
   (getKommuneByName toLowerCase kommunerData s = None \<longleftrightarrow>
      (\<forall>k\<in>set kommunerData.
          toLowerCase (k_name k) \<noteq> toLowerCase s \<and>
          toLowerCase (k_name_no k) \<noteq> toLowerCase s)) \<and>
   (getKommuneByName toLowerCase kommunerData s = Some m \<longleftrightarrow>
      (\<exists>pre post. kommunerData = pre @ m # post \<and>
         (toLowerCase (k_name m) = toLowerCase s \<or>
          toLowerCase (k_name_no m) = toLowerCase s) \<and>
         (\<forall>k\<in>set pre.
            toLowerCase (k_name k) \<noteq> toLowerCase s \<and>
            toLowerCase (k_name_no k) \<noteq> toLowerCase s)))"
proof -
  let ?P = "\<lambda>k. toLowerCase (k_name k) = toLowerCase s \<or>
                toLowerCase (k_name_no k) = toLowerCase s"
  have a: "toLowerCase s = toLowerCase t \<longrightarrow>
      getFylkeByName toLowerCase fylkerData s = getFylkeByName toLowerCase fylkerData t"
    by (simp add: getFylkeByName_def)
  have b: "getKommuneByName toLowerCase kommunerData s = None \<longleftrightarrow>
      (\<forall>k\<in>set kommunerData. \<not> ?P k)"
    by (auto simp: getKommuneByName_def find_None_iff)
  have c: "getKommuneByName toLowerCase kommunerData s = Some m \<longleftrightarrow>
      (\<exists>pre post. kommunerData = pre @ m # post \<and> ?P m \<and> (\<forall>k\<in>set pre. \<not> ?P k))"
  proof
    assume "getKommuneByName toLowerCase kommunerData s = Some m"
    then have "List.find ?P kommunerData = Some m" by (simp add: getKommuneByName_def)
    then show "\<exists>pre post. kommunerData = pre @ m # post \<and> ?P m \<and> (\<forall>k\<in>set pre. \<not> ?P k)"
      by (rule find_Some_split)
  next
    assume "\<exists>pre post. kommunerData = pre @ m # post \<and> ?P m \<and> (\<forall>k\<in>set pre. \<not> ?P k)"
    then obtain pre post where d: "kommunerData = pre @ m # post"
      and m: "?P m" and pre: "\<forall>k\<in>set pre. \<not> ?P k" by blast
    from pre m have "List.find ?P (pre @ m # post) = Some m" by (rule find_first_split)
    with d show "getKommuneByName toLowerCase kommunerData s = Some m"
      by (simp add: getKommuneByName_def)
  qed
  from a b c show ?thesis by simp
qed

theorem name_lookup_case_insensitive_witness:
  "toLowerCase_ascii (js ''oslo'') = toLowerCase_ascii (js ''Oslo'') \<and>
   getFylkeByName toLowerCase_ascii [fylke_oslo, fylke_rogaland] (js ''oslo'') =
     getFylkeByName toLowerCase_ascii [fylke_oslo, fylke_rogaland] (js ''Oslo'') \<and>
   getFylkeByName toLowerCase_ascii [fylke_oslo, fylke_rogaland] (js ''Oslo'') = Some fylke_oslo \<and>
   getKommuneByName toLowerCase_ascii [kommune_oslo, kommune_time, kommune_bergen] (js ''BERGEN'')
     = Some kommune_bergen \<and>
   getKommuneByName toLowerCase_ascii [kommune_oslo, kommune_time, kommune_bergen] (js ''Atlantis'')
     = None"
proof -
  let ?tbl = "[kommune_oslo, kommune_time, kommune_bergen]"
  have lc: "toLowerCase_ascii (js ''oslo'') = toLowerCase_ascii (js ''Oslo'')"
    by code_simp
  have f: "getFylkeByName toLowerCase_ascii [fylke_oslo, fylke_rogaland] (js ''Oslo'')
      = Some fylke_oslo"
    by code_simp
  have miss: "\<forall>k\<in>set ?tbl.
      toLowerCase_ascii (k_name k) \<noteq> toLowerCase_ascii (js ''Atlantis'') \<and>
      toLowerCase_ascii (k_name_no k) \<noteq> toLowerCase_ascii (js ''Atlantis'')"
    by code_simp
  have hit: "toLowerCase_ascii (k_name kommune_bergen) = toLowerCase_ascii (js ''BERGEN'')"
    by code_simp
  have before: "\<forall>k\<in>set [kommune_oslo, kommune_time].
      toLowerCase_ascii (k_name k) \<noteq> toLowerCase_ascii (js ''BERGEN'') \<and>
      toLowerCase_ascii (k_name_no k) \<noteq> toLowerCase_ascii (js ''BERGEN'')"
    by code_simp
  have split: "?tbl = [kommune_oslo, kommune_time] @ kommune_bergen # []" by simp
  from lc
    name_lookup_case_insensitive [of toLowerCase_ascii "js ''oslo''" "js ''Oslo''"
      "[fylke_oslo, fylke_rogaland]"]
  have a: "getFylkeByName toLowerCase_ascii [fylke_oslo, fylke_rogaland] (js ''oslo'') =
     getFylkeByName toLowerCase_ascii [fylke_oslo, fylke_rogaland] (js ''Oslo'')"
    by blast
  from miss
    name_lookup_case_insensitive [of toLowerCase_ascii "js ''Atlantis''" _ _ ?tbl]
  have b: "getKommuneByName toLowerCase_ascii ?tbl (js ''Atlantis'') = None"
    by blast
  from hit before split
    name_lookup_case_insensitive [of toLowerCase_ascii "js ''BERGEN''" _ _ ?tbl kommune_bergen]
  have c: "getKommuneByName toLowerCase_ascii ?tbl (js ''BERGEN'') = Some kommune_bergen"
    by blast
  from lc f a b c show ?thesis by blast
qed

section \<open>Lookup by short identifier\<close>

text \<open>
  Claim C1, as the code has it.  \<open>getKommuneByShortId\<close> first removes the
  leading zeros of its input and then runs the three tiers on that stripped
  string: (a) the stripped string left-padded to four digits is matched
  exactly; (b) otherwise the first record whose identifier without leading
  zeros equals the stripped string is returned; (c) otherwise the first record
  in source order whose identifier contains the digits of the stripped string
  as an in-order subsequence, or \<open>undefined\<close>.  That is the three-tier function
  of the specification applied to the stripped input, and the same as that
  function on an input without leading zeros.  For an input of at most four
  digits, the string compared in tier (a) is the input itself left-padded to
  four digits.
\<close>

theorem short_id_three_tiers:
  "getKommuneByShortId kommunerData shortId =
     getKommuneByShortId_claimed kommunerData (stripLeadingZeros shortId) \<and>
   (stripLeadingZeros shortId = shortId \<longrightarrow>
      getKommuneByShortId kommunerData shortId =
        getKommuneByShortId_claimed kommunerData shortId) \<and>
   (length shortId \<le> 4 \<longrightarrow>
      padStart 4 ZERO (stripLeadingZeros shortId) = padStart 4 ZERO shortId)"
proof -
  have eq: "getKommuneByShortId kd s = getKommuneByShortId_claimed kd (stripLeadingZeros s)"
    for kd s
    by (simp add: getKommuneByShortId_def getKommuneByShortId_claimed_def Let_def
        stripLeadingZeros_idem subsequenceFallback_find split: option.split)
  then have "stripLeadingZeros shortId = shortId \<longrightarrow>
      getKommuneByShortId kommunerData shortId =
        getKommuneByShortId_claimed kommunerData shortId"
    by simp
  with eq padStart_stripLeadingZeros show ?thesis by blast
qed

theorem short_id_three_tiers_witness:
  "stripLeadingZeros (js ''301'') = js ''301'' \<and>
   length (js ''031'') \<le> 4 \<and>
   getKommuneByShortId [kommune_time, kommune_halden] (js ''01'') =
     getKommuneByShortId_claimed [kommune_time, kommune_halden] (stripLeadingZeros (js ''01'')) \<and>
   getKommuneByShortId [kommune_oslo, kommune_halden] (js ''301'') =
     getKommuneByShortId_claimed [kommune_oslo, kommune_halden] (js ''301'') \<and>
   padStart 4 ZERO (stripLeadingZeros (js ''031'')) = padStart 4 ZERO (js ''031'')"
proof -
  have a: "stripLeadingZeros (js ''301'') = js ''301''" by (rule short_id_strings)
  have b: "length (js ''031'') \<le> 4" by (simp add: js_def)
  from a b
    short_id_three_tiers [of "[kommune_time, kommune_halden]" "js ''01''"]
    short_id_three_tiers [of "[kommune_oslo, kommune_halden]" "js ''301''"]
    short_id_three_tiers [of "[]" "js ''031''"]
  show ?thesis by blast
qed

text \<open>
  With the input itself in tier (c), as the specification words it, the result
  differs: on the table of Time (\<open>1121\<close>) and Halden (\<open>3101\<close>) the input \<open>01\<close>
  is stripped to \<open>1\<close>, which \<open>1121\<close> contains, so the function returns Time;
  \<open>0\<close> followed by \<open>1\<close> occurs in \<open>3101\<close> only.
\<close>

theorem short_id_counterexample:
  "getKommuneByShortId [kommune_time, kommune_halden] (js ''01'') = Some kommune_time \<and>
   getKommuneByShortId_claimed [kommune_time, kommune_halden] (js ''01'') = Some kommune_halden \<and>
   kommune_time \<noteq> kommune_halden"
  by code_simp

text \<open>
  Claim C2, as the code has it.  Let \<open>m\<close> be the first record of the table with
  identifier \<open>0301\<close>.  Then \<open>getKommuneByShortId("301")\<close> returns \<open>m\<close>, by the
  padded exact match of tier (a).  The input \<open>31\<close> is never matched with \<open>0301\<close>
  by tier (b), since \<open>0301\<close> without leading zeros is \<open>301\<close>.  When no
  identifier of the table is \<open>31\<close> up to leading zeros, tiers (a) and (b) find
  nothing for \<open>31\<close> and the subsequence tier (c) decides: on every such table
  the result is the first record in source order whose identifier contains
  \<open>3\<close> and later \<open>1\<close>, whatever its county.  That record is \<open>m\<close> provided no
  record before \<open>m\<close> has such an identifier.
\<close>

theorem short_id_0301:
  "(k_id m = js ''0301'' \<and> (\<forall>p\<in>set pre. k_id p \<noteq> js ''0301'')
      \<longrightarrow> getKommuneByShortId (pre @ m # post) (js ''301'') = Some m \<and>
          exactMatch (pre @ m # post) (padStart 4 ZERO (stripLeadingZeros (js ''301''))) = Some m) \<and>
   (k_id m = js ''0301''
      \<longrightarrow> stripLeadingZeros (k_id m) \<noteq> stripLeadingZeros (js ''31'')) \<and>
   (k_id m = js ''0301'' \<and>
    (\<forall>x\<in>set (pre @ m # post). stripLeadingZeros (k_id x) \<noteq> js ''31'') \<and>
    (\<forall>p\<in>set pre. \<not> subseq (js ''31'') (k_id p))
      \<longrightarrow> getKommuneByShortId (pre @ m # post) (js ''31'') = Some m \<and>
          exactMatch (pre @ m # post) (padStart 4 ZERO (stripLeadingZeros (js ''31''))) = None \<and>
          noZerosMatch (pre @ m # post) (stripLeadingZeros (js ''31'')) = None \<and>
          subsequenceFallback (pre @ m # post) (stripLeadingZeros (js ''31'')) = Some m) \<and>
   ((\<forall>x\<in>set kommunerData. stripLeadingZeros (k_id x) \<noteq> js ''31'')
      \<longrightarrow> getKommuneByShortId kommunerData (js ''31'') =
            List.find (\<lambda>kommune. subseq (js ''31'') (k_id kommune)) kommunerData \<and>
          exactMatch kommunerData (padStart 4 ZERO (stripLeadingZeros (js ''31''))) = None \<and>
          noZerosMatch kommunerData (stripLeadingZeros (js ''31'')) = None) \<and>
   ((\<forall>x\<in>set (before @ first # after). stripLeadingZeros (k_id x) \<noteq> js ''31'') \<and>
    subseq (js ''31'') (k_id first) \<and>
    (\<forall>p\<in>set before. \<not> subseq (js ''31'') (k_id p))
      \<longrightarrow> getKommuneByShortId (before @ first # after) (js ''31'') = Some first)"
proof -
  let ?data = "pre @ m # post"
  have G: "getKommuneByShortId kd (js ''31'') =
        List.find (\<lambda>kommune. subseq (js ''31'') (k_id kommune)) kd \<and>
      exactMatch kd (padStart 4 ZERO (stripLeadingZeros (js ''31''))) = None \<and>
      noZerosMatch kd (stripLeadingZeros (js ''31'')) = None"
    if nz: "\<forall>x\<in>set kd. stripLeadingZeros (k_id x) \<noteq> js ''31''" for kd
  proof -
    have "\<forall>x\<in>set kd. k_id x \<noteq> js ''0031''"
      using nz short_id_strings(5) by metis
    then have a: "exactMatch kd (js ''0031'') = None"
      unfolding exactMatch_def find_None_iff by blast
    have b: "noZerosMatch kd (js ''31'') = None"
      unfolding noZerosMatch_def find_None_iff using nz by blast
    from a b show ?thesis
      by (simp add: getKommuneByShortId_def short_id_strings subsequenceFallback_find)
  qed
  have F: "getKommuneByShortId (before @ first # after) (js ''31'') = Some first"
    if nz: "\<forall>x\<in>set (before @ first # after). stripLeadingZeros (k_id x) \<noteq> js ''31''"
      and hit: "subseq (js ''31'') (k_id first)"
      and miss: "\<forall>p\<in>set before. \<not> subseq (js ''31'') (k_id p)"
  proof -
    from miss hit
    have "List.find (\<lambda>kommune. subseq (js ''31'') (k_id kommune)) (before @ first # after)
        = Some first"
      by (rule find_first_split)
    with G [OF nz] show ?thesis by simp
  qed
  have A: "getKommuneByShortId ?data (js ''301'') = Some m \<and>
      exactMatch ?data (padStart 4 ZERO (stripLeadingZeros (js ''301''))) = Some m"
    if id: "k_id m = js ''0301''" and first: "\<forall>p\<in>set pre. k_id p \<noteq> js ''0301''"
  proof -
    have "exactMatch ?data (js ''0301'') = Some m"
      unfolding exactMatch_def using first id by (intro find_first_split) auto
    then show ?thesis by (simp add: getKommuneByShortId_def short_id_strings)
  qed
  have B: "stripLeadingZeros (k_id m) \<noteq> stripLeadingZeros (js ''31'')"
    if id: "k_id m = js ''0301''"
    using id by (simp add: short_id_strings)
  have C: "getKommuneByShortId ?data (js ''31'') = Some m \<and>
      exactMatch ?data (padStart 4 ZERO (stripLeadingZeros (js ''31''))) = None \<and>
      noZerosMatch ?data (stripLeadingZeros (js ''31'')) = None \<and>
      subsequenceFallback ?data (stripLeadingZeros (js ''31'')) = Some m"
    if id: "k_id m = js ''0301''"
      and nz: "\<forall>x\<in>set ?data. stripLeadingZeros (k_id x) \<noteq> js ''31''"
      and first: "\<forall>p\<in>set pre. \<not> subseq (js ''31'') (k_id p)"
  proof -
    have "\<forall>x\<in>set ?data. k_id x \<noteq> js ''0031''"
      using nz short_id_strings(5) by metis
    then have a: "exactMatch ?data (js ''0031'') = None"
      unfolding exactMatch_def find_None_iff by blast
    have b: "noZerosMatch ?data (js ''31'') = None"
      unfolding noZerosMatch_def find_None_iff using nz by blast
    have "subseq (js ''31'') (k_id m)"
      using id short_id_strings(8) by simp
    with first have c: "subsequenceFallback ?data (js ''31'') = Some m"
      unfolding subsequenceFallback_find by (intro find_first_split) auto
    from a b c show ?thesis
      by (simp add: getKommuneByShortId_def short_id_strings)
  qed
  from A B C G [of kommunerData] F show ?thesis by blast
qed

theorem short_id_0301_witness:
  "k_id kommune_oslo = js ''0301'' \<and>
   list_all (\<lambda>p. k_id p \<noteq> js ''0301'') [kommune_time] \<and>
   list_all (\<lambda>x. stripLeadingZeros (k_id x) \<noteq> js ''31'')
     [kommune_time, kommune_oslo, kommune_halden, kommune_bergen] \<and>
   list_all (\<lambda>p. \<not> subseq (js ''31'') (k_id p)) [kommune_time] \<and>
   getKommuneByShortId [kommune_time, kommune_oslo, kommune_halden, kommune_bergen] (js ''301'')
     = Some kommune_oslo \<and>
   stripLeadingZeros (k_id kommune_oslo) \<noteq> stripLeadingZeros (js ''31'') \<and>
   getKommuneByShortId [kommune_time, kommune_oslo, kommune_halden, kommune_bergen] (js ''31'')
     = Some kommune_oslo \<and>
   list_all (\<lambda>x. stripLeadingZeros (k_id x) \<noteq> js ''31'')
     [kommune_time, kommune_halden, kommune_oslo] \<and>
   subseq (js ''31'') (k_id kommune_halden) \<and>
   getKommuneByShortId [kommune_time, kommune_halden, kommune_oslo] (js ''31'') =
     List.find (\<lambda>kommune. subseq (js ''31'') (k_id kommune))
       [kommune_time, kommune_halden, kommune_oslo] \<and>
   getKommuneByShortId [kommune_time, kommune_halden, kommune_oslo] (js ''31'')
     = Some kommune_halden"
proof -
  have id: "k_id kommune_oslo = js ''0301''" by (simp add: kommune_oslo_def)
  have nz2: "\<forall>x\<in>set [kommune_time, kommune_halden, kommune_oslo].
      stripLeadingZeros (k_id x) \<noteq> js ''31''" by code_simp
  have nz3: "\<forall>x\<in>set ([kommune_time] @ kommune_halden # [kommune_oslo]).
      stripLeadingZeros (k_id x) \<noteq> js ''31''" by code_simp
  have hit: "subseq (js ''31'') (k_id kommune_halden)" by code_simp
  have first: "\<forall>p\<in>set [kommune_time]. k_id p \<noteq> js ''0301''" by code_simp
  have nz: "\<forall>x\<in>set ([kommune_time] @ kommune_oslo # [kommune_halden, kommune_bergen]).
      stripLeadingZeros (k_id x) \<noteq> js ''31''" by code_simp
  have sub: "\<forall>p\<in>set [kommune_time]. \<not> subseq (js ''31'') (k_id p)" by code_simp
  from id first nz sub nz2 nz3 hit
    short_id_0301 [of kommune_oslo "[kommune_time]" "[kommune_halden, kommune_bergen]"
      "[kommune_time, kommune_halden, kommune_oslo]"
      "[kommune_time]" kommune_halden "[kommune_oslo]"]
  show ?thesis unfolding list_all_iff by simp
qed

text \<open>
  A record of another county placed before \<open>0301\<close> whose identifier contains
  \<open>3\<close> and later \<open>1\<close> is returned instead: with Halden (\<open>3101\<close>) before Oslo, the
  input \<open>31\<close> gives Halden.  On the table of Oslo alone the zero-stripped match
  finds nothing for \<open>31\<close> either, and the result comes from the subsequence
  tier.
\<close>

theorem short_id_31_counterexample:
  "k_id kommune_oslo = js ''0301'' \<and>
   getKommuneByShortId [kommune_halden, kommune_oslo] (js ''31'') = Some kommune_halden \<and>
   kommune_halden \<noteq> kommune_oslo \<and>
   \<not> startsWith (k_id kommune_halden) (js ''03'') \<and>
   noZerosMatch [kommune_halden, kommune_oslo] (stripLeadingZeros (js ''31'')) = None \<and>
   noZerosMatch [kommune_oslo] (stripLeadingZeros (js ''31'')) = None \<and>
   getKommuneByShortId [kommune_oslo] (js ''31'') = subsequenceFallback [kommune_oslo] (js ''31'')"
  by code_simp

text \<open>
  Claim C9.  For an input that is empty or consists of zeros only, the
  stripped search string is empty and the subsequence test holds for every
  identifier.  When no identifier of the table is empty or all zeros (so that
  neither the padded string \<open>0000\<close> nor the empty stripped string matches a
  record), the function returns the first record of the table, and
  \<open>undefined\<close> only for the empty table.
\<close>

theorem short_id_all_zeros:
  assumes "set shortId \<subseteq> {ZERO}"
    and "\<forall>k\<in>set kommunerData. stripLeadingZeros (k_id k) \<noteq> []"
  shows "stripLeadingZeros shortId = [] \<and>
    (\<forall>kommuneId. subsequenceMatch (stripLeadingZeros shortId) kommuneId) \<and>
    exactMatch kommunerData (padStart 4 ZERO (stripLeadingZeros shortId)) = None \<and>
    noZerosMatch kommunerData (stripLeadingZeros shortId) = None \<and>
    getKommuneByShortId kommunerData shortId =
      (case kommunerData of [] \<Rightarrow> None | first # _ \<Rightarrow> Some first)"
proof -
  have s: "stripLeadingZeros shortId = []"
    using assms(1) by (rule stripLeadingZeros_zeros)
  have m: "subsequenceMatch [] kommuneId" for kommuneId
    by (simp add: subsequenceMatch_iff_subseq)
  have "stripLeadingZeros (padStart 4 ZERO []) = []"
    by (simp add: padStart_def stripLeadingZeros_def)
  with assms(2) have "\<forall>k\<in>set kommunerData. k_id k \<noteq> padStart 4 ZERO []" by metis
  then have a: "exactMatch kommunerData (padStart 4 ZERO []) = None"
    unfolding exactMatch_def find_None_iff by blast
  have b: "noZerosMatch kommunerData [] = None"
    unfolding noZerosMatch_def find_None_iff using assms(2) by blast
  have c: "subsequenceFallback kommunerData [] =
      (case kommunerData of [] \<Rightarrow> None | first # _ \<Rightarrow> Some first)"
    by (simp add: subsequenceFallback_find find_always)
  from s m a b c show ?thesis by (simp add: getKommuneByShortId_def)
qed

theorem short_id_all_zeros_witness:
  "set (js ''00'') \<subseteq> {ZERO} \<and>
   list_all (\<lambda>k. stripLeadingZeros (k_id k) \<noteq> []) [kommune_time, kommune_oslo] \<and>
   stripLeadingZeros (js ''00'') = [] \<and>
   getKommuneByShortId [kommune_time, kommune_oslo] (js ''00'') = Some kommune_time"
proof -
  have z: "set (js ''00'') \<subseteq> {ZERO}" by (simp add: js_def)
  have n: "\<forall>k\<in>set [kommune_time, kommune_oslo]. stripLeadingZeros (k_id k) \<noteq> []"
    by code_simp
  from short_id_all_zeros [OF z n] z n show ?thesis
    unfolding list_all_iff by simp
qed

section \<open>Municipalities of a county\<close>

text \<open>
  Claim C7.  For every string \<open>fylkeId\<close>, \<open>getKommunerInFylke(fylkeId)\<close> is the
  list of the records whose identifier has \<open>fylkeId\<close> as a prefix (code unit by
  code unit, so case-sensitively), in source order.
\<close>

theorem kommuner_in_fylke_prefix:
  "getKommunerInFylke kommunerData fylkeId =
     filter (\<lambda>kommune. prefix fylkeId (k_id kommune)) kommunerData"
  by (simp add: getKommunerInFylke_def startsWith_iff_prefix)

theorem kommuner_in_fylke_prefix_witness:
  "filter (\<lambda>kommune. prefix (js ''11'') (k_id kommune))
     [kommune_oslo, kommune_time, kommune_halden, kommune_bergen] = [kommune_time]"
proof -
  have "getKommunerInFylke [kommune_oslo, kommune_time, kommune_halden, kommune_bergen]
      (js ''11'') = [kommune_time]"
    by code_simp
  with kommuner_in_fylke_prefix
    [of "[kommune_oslo, kommune_time, kommune_halden, kommune_bergen]" "js ''11''"]
  show ?thesis by simp
qed

text \<open>
  Claim C10.  With the empty string as county identifier,
  \<open>getKommunerInFylke\<close> returns the whole municipality table: the empty string
  is a prefix of every identifier.
\<close>

theorem kommuner_in_fylke_empty_prefix:
  "getKommunerInFylke kommunerData [] = kommunerData"
  by (simp add: getKommunerInFylke_def startsWith_def)

section \<open>Range filters\<close>

text \<open>
  Claim C4, as the code has it.  \<open>getKommunerByPopulation(min, max)\<close> keeps, in
  source order, exactly the records with \<open>min <= k_population <= max\<close>, both
  bounds included, for all numbers \<open>min\<close> and \<open>max\<close>, and \<open>getKommunerByArea\<close>
  does the same over \<open>k_area\<close>; on finite values the comparison is the order of
  the numbers.  Hence, when every population is non-negative, the bounds \<open>0\<close>
  and infinity return the whole table, and a lower bound strictly above every
  population returns the empty list.  The sum \<open>maxPopulation + 1\<close> is such a
  bound when \<open>maxPopulation\<close> is an integer below \<open>2^53\<close> that no population
  exceeds: the sum is then exact.
\<close>

theorem range_filters_inclusive:
  "getKommunerByPopulation kommunerData lo hi =
     filter (\<lambda>m. js_le lo (k_population m) \<and> js_le (k_population m) hi) kommunerData \<and>
   getKommunerByArea kommunerData lo hi =
     filter (\<lambda>m. js_le lo (k_area m) \<and> js_le (k_area m) hi) kommunerData \<and>
   (k_population m = Fin p \<longrightarrow>
      (m \<in> set (getKommunerByPopulation kommunerData (Fin a) (Fin b))
         \<longleftrightarrow> m \<in> set kommunerData \<and> a \<le> p \<and> p \<le> b)) \<and>
   (k_area m = Fin p \<longrightarrow>
      (m \<in> set (getKommunerByArea kommunerData (Fin a) (Fin b))
         \<longleftrightarrow> m \<in> set kommunerData \<and> a \<le> p \<and> p \<le> b)) \<and>
   ((\<forall>k\<in>set kommunerData. js_le (Fin 0) (k_population k))
      \<longrightarrow> getKommunerByPopulation kommunerData (Fin 0) PosInf = kommunerData) \<and>
   ((\<forall>k\<in>set kommunerData. js_lt (k_population k) lo)
      \<longrightarrow> getKommunerByPopulation kommunerData lo PosInf = []) \<and>
   ((\<forall>k\<in>set kommunerData. js_le (k_population k) (Fin (of_nat maxPopulation))) \<and>
    maxPopulation < 9007199254740992
      \<longrightarrow> getKommunerByPopulation kommunerData (js_plus maxPopulation 1) PosInf = [])"
proof -
  have all: "getKommunerByPopulation kommunerData (Fin 0) PosInf = kommunerData"
    if "\<forall>k\<in>set kommunerData. js_le (Fin 0) (k_population k)"
  proof -
    from that have "\<forall>k\<in>set kommunerData.
        js_le (Fin 0) (k_population k) \<and> js_le (k_population k) PosInf"
      by (auto simp: js_le_PosInf dest: js_le_not_NaN)
    then show ?thesis by (simp add: getKommunerByPopulation_def js_ge_def)
  qed
  have above: "getKommunerByPopulation kommunerData lo PosInf = []"
    if "\<forall>k\<in>set kommunerData. js_lt (k_population k) lo"
  proof -
    from that have "\<forall>k\<in>set kommunerData. \<not> js_le lo (k_population k)"
      by (simp add: js_lt_def)
    then show ?thesis by (simp add: getKommunerByPopulation_def js_ge_def)
  qed
  have plus: "getKommunerByPopulation kommunerData (js_plus maxPopulation 1) PosInf = []"
    if bound: "\<forall>k\<in>set kommunerData. js_le (k_population k) (Fin (of_nat maxPopulation))"
      and small: "maxPopulation < 9007199254740992"
  proof -
    from small have sum: "js_plus maxPopulation 1 = Fin (of_nat maxPopulation + 1)"
      by (rule js_plus_one_exact)
    from bound have "\<forall>k\<in>set kommunerData.
        \<not> js_le (Fin (of_nat maxPopulation + 1)) (k_population k)"
      by (auto dest: js_le_Fin_Suc)
    then show ?thesis
      unfolding getKommunerByPopulation_def js_ge_def sum by simp
  qed
  have rest: "getKommunerByPopulation kommunerData lo hi =
       filter (\<lambda>m. js_le lo (k_population m) \<and> js_le (k_population m) hi) kommunerData \<and>
     getKommunerByArea kommunerData lo hi =
       filter (\<lambda>m. js_le lo (k_area m) \<and> js_le (k_area m) hi) kommunerData \<and>
     (k_population m = Fin p \<longrightarrow>
        (m \<in> set (getKommunerByPopulation kommunerData (Fin a) (Fin b))
           \<longleftrightarrow> m \<in> set kommunerData \<and> a \<le> p \<and> p \<le> b)) \<and>
     (k_area m = Fin p \<longrightarrow>
        (m \<in> set (getKommunerByArea kommunerData (Fin a) (Fin b))
           \<longleftrightarrow> m \<in> set kommunerData \<and> a \<le> p \<and> p \<le> b))"
    by (auto simp: getKommunerByPopulation_def getKommunerByArea_def js_ge_def)
  from rest all above plus show ?thesis by blast
qed

theorem range_filters_inclusive_witness:
  "list_all (\<lambda>k. js_le (Fin 0) (k_population k))
     [kommune_oslo, kommune_time, kommune_halden, kommune_bergen] \<and>
   list_all (\<lambda>k. js_le (k_population k) (Fin (of_nat 717710)))
     [kommune_oslo, kommune_time, kommune_halden, kommune_bergen] \<and>
   list_all (\<lambda>k. js_lt (k_population k) (Fin 800000))
     [kommune_oslo, kommune_time, kommune_halden, kommune_bergen] \<and>
   (717710::nat) < 9007199254740992 \<and>
   k_population kommune_halden = Fin 31000 \<and>
   k_area kommune_halden = Fin (64220 / 100) \<and>
   kommune_halden \<in> set (getKommunerByPopulation
     [kommune_oslo, kommune_time, kommune_halden, kommune_bergen] (Fin 31000) (Fin 291940)) \<and>
   kommune_halden \<in> set (getKommunerByArea
     [kommune_oslo, kommune_time, kommune_halden, kommune_bergen] (Fin 600) (Fin (64220 / 100))) \<and>
   getKommunerByPopulation [kommune_oslo, kommune_time, kommune_halden, kommune_bergen]
     (Fin 0) PosInf = [kommune_oslo, kommune_time, kommune_halden, kommune_bergen] \<and>
   getKommunerByPopulation [kommune_oslo, kommune_time, kommune_halden, kommune_bergen]
     (Fin 800000) PosInf = [] \<and>
   getKommunerByPopulation [kommune_oslo, kommune_time, kommune_halden, kommune_bergen]
     (js_plus 717710 1) PosInf = []"
proof -
  let ?tbl = "[kommune_oslo, kommune_time, kommune_halden, kommune_bergen]"
  have nonneg: "\<forall>k\<in>set ?tbl. js_le (Fin 0) (k_population k)"
    by code_simp
  have bound: "\<forall>k\<in>set ?tbl. js_le (k_population k) (Fin (of_nat 717710))"
    by (simp add: kommune_oslo_def kommune_time_def kommune_halden_def kommune_bergen_def)
  have below: "\<forall>k\<in>set ?tbl. js_lt (k_population k) (Fin 800000)"
    by code_simp
  have small: "(717710::nat) < 9007199254740992" by simp
  have pop: "k_population kommune_halden = Fin 31000"
    by (simp add: kommune_halden_def)
  have area: "k_area kommune_halden = Fin (64220 / 100)"
    by (simp add: kommune_halden_def)
  have mem: "kommune_halden \<in> set ?tbl" by simp
  have r1: "(31000::rat) \<le> 31000 \<and> (31000::rat) \<le> 291940" by simp
  have r2: "(600::rat) \<le> 64220 / 100 \<and> (64220 / 100 :: rat) \<le> 64220 / 100" by simp
  note inst = range_filters_inclusive [of ?tbl _ _ kommune_halden _ _ _ 717710]
  from inst [of _ _ 31000 31000 291940] pop mem r1
  have a: "kommune_halden \<in> set (getKommunerByPopulation ?tbl (Fin 31000) (Fin 291940))"
    by blast
  from inst [of _ _ "64220 / 100" 600 "64220 / 100"] area mem r2
  have b: "kommune_halden \<in> set (getKommunerByArea ?tbl (Fin 600) (Fin (64220 / 100)))"
    by blast
  from inst nonneg
  have c: "getKommunerByPopulation ?tbl (Fin 0) PosInf = ?tbl" by blast
  from inst [of "Fin 800000"] below
  have d: "getKommunerByPopulation ?tbl (Fin 800000) PosInf = []" by blast
  from inst bound small
  have e: "getKommunerByPopulation ?tbl (js_plus 717710 1) PosInf = []" by blast
  from nonneg bound below small pop area a b c d e show ?thesis
    unfolding list_all_iff by blast
qed

text \<open>
  From \<open>2^53\<close> on the sum is rounded: \<open>9007199254740992 + 1\<close> is
  \<open>9007199254740992\<close> again.  For a table whose one record has that population,
  which is non-negative and the largest, the bounds \<open>maxPopulation + 1\<close> and
  infinity keep the record.
\<close>

theorem range_filter_max_plus_one_counterexample:
  "js_le (Fin 0) (k_population (kommune_oslo\<lparr>k_population := Fin 9007199254740992\<rparr>)) \<and>
   js_plus 9007199254740992 1 = Fin 9007199254740992 \<and>
   getKommunerByPopulation [kommune_oslo\<lparr>k_population := Fin 9007199254740992\<rparr>]
     (js_plus 9007199254740992 1) PosInf
     = [kommune_oslo\<lparr>k_population := Fin 9007199254740992\<rparr>] \<and>
   getKommunerByPopulation [kommune_oslo\<lparr>k_population := Fin 9007199254740992\<rparr>]
     (js_plus 9007199254740992 1) PosInf \<noteq> []"
  unfolding getKommunerByPopulation_def js_ge_def js_plus_2_53_1 by simp

section \<open>Substring search\<close>

text \<open>
  Claim C6.  \<open>searchKommunerByName(s)\<close> is the list, in source order, of the
  records whose \<open>k_name\<close> or \<open>k_name_no\<close>, in lower case, contains the lower-case
  form of \<open>s\<close> as a contiguous substring; \<open>searchFylkerByName\<close> does the same
  over \<open>f_name\<close>.  With the empty string, whose lower-case form is empty, every
  municipality is returned.
\<close>

theorem name_search_substring:
  "searchKommunerByName toLowerCase kommunerData s =
     filter (\<lambda>k. sublist (toLowerCase s) (toLowerCase (k_name k)) \<or>
                 sublist (toLowerCase s) (toLowerCase (k_name_no k))) kommunerData \<and>
   searchFylkerByName toLowerCase fylkerData s =
     filter (\<lambda>f. sublist (toLowerCase s) (toLowerCase (f_name f))) fylkerData \<and>
   (toLowerCase [] = [] \<longrightarrow> searchKommunerByName toLowerCase kommunerData [] = kommunerData)"
  by (simp add: searchKommunerByName_def searchFylkerByName_def includes_js_iff_sublist Let_def)

theorem name_search_substring_witness:
  "filter (\<lambda>k. sublist (toLowerCase_ascii (js ''ER'')) (toLowerCase_ascii (k_name k)) \<or>
               sublist (toLowerCase_ascii (js ''ER'')) (toLowerCase_ascii (k_name_no k)))
     [kommune_oslo, kommune_time, kommune_halden, kommune_bergen] = [kommune_bergen] \<and>
   toLowerCase_ascii [] = [] \<and>
   searchKommunerByName toLowerCase_ascii
     [kommune_oslo, kommune_time, kommune_halden, kommune_bergen] []
     = [kommune_oslo, kommune_time, kommune_halden, kommune_bergen]"
proof -
  let ?tbl = "[kommune_oslo, kommune_time, kommune_halden, kommune_bergen]"
  have e: "searchKommunerByName toLowerCase_ascii ?tbl (js ''ER'') = [kommune_bergen]"
    by code_simp
  have n: "toLowerCase_ascii [] = []" by (simp add: toLowerCase_ascii_def)
  from name_search_substring [of toLowerCase_ascii ?tbl "js ''ER''"] e
  have a: "filter (\<lambda>k. sublist (toLowerCase_ascii (js ''ER'')) (toLowerCase_ascii (k_name k)) \<or>
               sublist (toLowerCase_ascii (js ''ER'')) (toLowerCase_ascii (k_name_no k))) ?tbl
      = [kommune_bergen]"
    by simp
  from name_search_substring [of toLowerCase_ascii ?tbl "[]"] n
  have b: "searchKommunerByName toLowerCase_ascii ?tbl [] = ?tbl" by blast
  from a n b show ?thesis by blast
qed

section \<open>Misses and empty ranges\<close>

text \<open>
  Claim C8.  No query has an error result: the lookups return an optional
  record and the filters a list, and the loop of the short-identifier lookup
  terminates.  A lookup that matches no record returns \<open>undefined\<close>: by
  identifier, by name, and by short identifier when no identifier contains
  the stripped digits as a subsequence.  A range with \<open>max < min\<close> gives the
  empty list, and every filter returns records of the table only.
\<close>

theorem queries_never_fail:
  "((\<forall>f\<in>set fylkerData. f_id f \<noteq> ident) \<longrightarrow> getFylkeById fylkerData ident = None) \<and>
   ((\<forall>f\<in>set fylkerData. toLowerCase (f_name f) \<noteq> toLowerCase name)
      \<longrightarrow> getFylkeByName toLowerCase fylkerData name = None) \<and>
   ((\<forall>k\<in>set kommunerData. k_id k \<noteq> ident) \<longrightarrow> getKommuneById kommunerData ident = None) \<and>
   ((\<forall>k\<in>set kommunerData. toLowerCase (k_name k) \<noteq> toLowerCase name \<and>
                           toLowerCase (k_name_no k) \<noteq> toLowerCase name)
      \<longrightarrow> getKommuneByName toLowerCase kommunerData name = None) \<and>
   ((\<forall>k\<in>set kommunerData. \<not> subseq (stripLeadingZeros shortId) (k_id k))
      \<longrightarrow> getKommuneByShortId kommunerData shortId = None) \<and>
   (js_lt hi lo \<longrightarrow> getKommunerByPopulation kommunerData lo hi = [] \<and>
                    getKommunerByArea kommunerData lo hi = []) \<and>
   set (getKommunerByPopulation kommunerData lo hi) \<subseteq> set kommunerData \<and>
   set (getKommunerByArea kommunerData lo hi) \<subseteq> set kommunerData \<and>
   set (getKommunerInFylke kommunerData ident) \<subseteq> set kommunerData \<and>
   set (getKommunerByLanguage toLowerCase kommunerData name) \<subseteq> set kommunerData \<and>
   set (searchKommunerByName toLowerCase kommunerData name) \<subseteq> set kommunerData \<and>
   set (searchFylkerByName toLowerCase fylkerData name) \<subseteq> set fylkerData"
proof -
  have miss: "(\<forall>f\<in>set fylkerData. f_id f \<noteq> ident) \<longrightarrow> getFylkeById fylkerData ident = None"
    "(\<forall>f\<in>set fylkerData. toLowerCase (f_name f) \<noteq> toLowerCase name)
      \<longrightarrow> getFylkeByName toLowerCase fylkerData name = None"
    "(\<forall>k\<in>set kommunerData. k_id k \<noteq> ident) \<longrightarrow> getKommuneById kommunerData ident = None"
    "(\<forall>k\<in>set kommunerData. toLowerCase (k_name k) \<noteq> toLowerCase name \<and>
                           toLowerCase (k_name_no k) \<noteq> toLowerCase name)
      \<longrightarrow> getKommuneByName toLowerCase kommunerData name = None"
    by (auto simp: getFylkeById_def getFylkeByName_def getKommuneById_def
        getKommuneByName_def find_None_iff)
  have short: "(\<forall>k\<in>set kommunerData. \<not> subseq (stripLeadingZeros shortId) (k_id k))
      \<longrightarrow> getKommuneByShortId kommunerData shortId = None"
    using getKommuneByShortId_miss by blast
  have range: "js_lt hi lo \<longrightarrow> getKommunerByPopulation kommunerData lo hi = [] \<and>
                    getKommunerByArea kommunerData lo hi = []"
  proof
    assume "js_lt hi lo"
    then have "\<not> js_le lo hi" by (simp add: js_lt_def)
    then have "\<not> (js_le lo p \<and> js_le p hi)" for p
      using js_le_trans by blast
    then show "getKommunerByPopulation kommunerData lo hi = [] \<and>
        getKommunerByArea kommunerData lo hi = []"
      by (simp add: getKommunerByPopulation_def getKommunerByArea_def js_ge_def)
  qed
  have sub: "set (getKommunerByPopulation kommunerData lo hi) \<subseteq> set kommunerData"
    "set (getKommunerByArea kommunerData lo hi) \<subseteq> set kommunerData"
    "set (getKommunerInFylke kommunerData ident) \<subseteq> set kommunerData"
    "set (getKommunerByLanguage toLowerCase kommunerData name) \<subseteq> set kommunerData"
    "set (searchKommunerByName toLowerCase kommunerData name) \<subseteq> set kommunerData"
    "set (searchFylkerByName toLowerCase fylkerData name) \<subseteq> set fylkerData"
    by (simp_all add: getKommunerByPopulation_def getKommunerByArea_def getKommunerInFylke_def
        getKommunerByLanguage_def searchKommunerByName_def searchFylkerByName_def Let_def)
  from miss short range sub show ?thesis by blast
qed

theorem queries_never_fail_witness:
  "getFylkeById [fylke_oslo, fylke_rogaland] (js ''99'') = None \<and>
   getFylkeByName toLowerCase_ascii [fylke_oslo, fylke_rogaland] (js ''Atlantis'') = None \<and>
   getKommuneById [kommune_oslo, kommune_time, kommune_halden] (js ''99'') = None \<and>
   getKommuneByName toLowerCase_ascii [kommune_oslo, kommune_time, kommune_halden] (js ''Atlantis'')
     = None \<and>
   getKommuneByShortId [kommune_oslo, kommune_time, kommune_halden] (js ''99'') = None \<and>
   js_lt (Fin 10) (Fin 20) \<and>
   getKommunerByPopulation [kommune_oslo, kommune_time, kommune_halden] (Fin 20) (Fin 10) = [] \<and>
   getKommunerByArea [kommune_oslo, kommune_time, kommune_halden] (Fin 20) (Fin 10) = []"
proof -
  let ?f = "[fylke_oslo, fylke_rogaland]"
  let ?k = "[kommune_oslo, kommune_time, kommune_halden]"
  have h1: "\<forall>f\<in>set ?f. f_id f \<noteq> js ''99''" by code_simp
  have h2: "\<forall>f\<in>set ?f. toLowerCase_ascii (f_name f) \<noteq> toLowerCase_ascii (js ''Atlantis'')"
    by code_simp
  have h3: "\<forall>k\<in>set ?k. k_id k \<noteq> js ''99''" by code_simp
  have h4: "\<forall>k\<in>set ?k. toLowerCase_ascii (k_name k) \<noteq> toLowerCase_ascii (js ''Atlantis'') \<and>
      toLowerCase_ascii (k_name_no k) \<noteq> toLowerCase_ascii (js ''Atlantis'')"
    by code_simp
  have h5: "\<forall>k\<in>set ?k. \<not> subseq (stripLeadingZeros (js ''99'')) (k_id k)" by code_simp
  have h6: "js_lt (Fin 10) (Fin 20)" by (simp add: js_lt_def)
  from h1 h2 h3 h4 h5 h6
    queries_never_fail [of ?f "js ''99''" toLowerCase_ascii "js ''Atlantis''" ?k "js ''99''"
      "Fin 10" "Fin 20"]
  show ?thesis by blast
qed

end
